theory Spec2Isabelle
  imports Complex_Main
begin

section \<open>Data model of the DSO plotter\<close>

text \<open>
  The embedding follows \<^verbatim>\<open>src/starplot/plotters/dsos.py\<close>. Python floats are
  modelled as reals; no property below depends on rounding. A column value that may be
  \<^verbatim>\<open>None\<close> (or NaN, which line 139 replaces by \<^verbatim>\<open>None\<close>) is an option.
\<close>

text \<open>
  The members of \<^verbatim>\<open>DsoType\<close> that the source names (lines 34-82); the enum itself is
  declared outside the files at hand, so every other member is \<open>OTHER_DSO_TYPE\<close> of its name.
\<close>

datatype dso_type =
    OPEN_CLUSTER | GLOBULAR_CLUSTER
  | GALAXY | GALAXY_PAIR | GALAXY_TRIPLET
  | NEBULA | PLANETARY_NEBULA | EMISSION_NEBULA | STAR_CLUSTER_NEBULA | REFLECTION_NEBULA
  | OTHER_DSO_TYPE string

text \<open>\<^verbatim>\<open>MarkerSymbolEnum\<close>: only \<^verbatim>\<open>SQUARE\<close> is referred to (line 203).\<close>

datatype marker_symbol = SQUARE | OTHER_SYMBOL string

record marker_style =
  symbol :: marker_symbol
  alpha :: real

text \<open>
  \<^verbatim>\<open>style.marker.to_polygon_style()\<close> is declared elsewhere: its result is kept as the
  marker style it was derived from, at the moment of the call.
\<close>

datatype polygon_style = ToPolygonStyle marker_style

text \<open>A DSO style: its marker and its label style (opaque here, hence a type parameter).\<close>

record 'l dso_style =
  marker :: marker_style
  label :: 'l

text \<open>
  The geometry column. A polygon is given by the coordinates of its exterior ring,
  \<^verbatim>\<open>list(zip(*polygon.exterior.coords.xy))\<close>; \<open>geom_type\<close> is the string the source
  compares with.
\<close>

type_synonym polygon = "(real \<times> real) list"

datatype geometry = Point | Polygon polygon | MultiPolygon "polygon list" | OtherGeometry

fun geom_type :: "geometry \<Rightarrow> string" where
  "geom_type Point = ''Point''"
| "geom_type (Polygon g) = ''Polygon''"
| "geom_type (MultiPolygon gs) = ''MultiPolygon''"
| "geom_type OtherGeometry = ''GeometryCollection''"

text \<open>A row of the OpenNGC table, with the columns the loop reads (lines 148-167, 185-186).\<close>

record row =
  Name :: string
  Type :: string
  ra_degrees :: "real option"
  dec_degrees :: "real option"
  MajAx :: "real option"
  MinAx :: "real option"
  PosAng :: "real option"
  V_Mag :: "real option"
  B_Mag :: "real option"
  size_deg2 :: "real option"
  geometry :: geometry

text \<open>The \<^verbatim>\<open>DSO\<close> model object, as constructed on lines 158-168.\<close>

record dso =
  name :: string
  ra :: real
  dec :: real
  type :: dso_type
  maj_ax :: "real option"
  min_ax :: "real option"
  angle :: "real option"
  magnitude :: "real option"
  dso_size :: "real option"

section \<open>Expression engine\<close>

text \<open>
  Modelled from the spec: the expression engine (\<^verbatim>\<open>starplot.models.base\<close>) is not among
  the source files; only its tests are. The model follows sections 4.1 and 9 of the
  specification: a tagged tree (Comparison, Nullity, Membership, And, Or) with
  \<open>evaluate\<close> returning a boolean. An object is seen through its attribute lookup
  \<open>'a \<Rightarrow> val option\<close>, where \<open>None\<close> is the null value; attribute names are typed, so
  an expression over an attribute the object type does not have cannot be built.
\<close>

datatype val = Num real | Str string | TypeVal dso_type

datatype cmp_op = LT | LE | GT | GE | EQ | NE

datatype 'a expr =
    Comparison 'a cmp_op val
  | Nullity 'a bool
  | Membership 'a "val list" bool
  | And "'a expr" "'a expr"
  | Or "'a expr" "'a expr"

text \<open>Native ordering of strings: lexicographic, by character code.\<close>

fun str_less :: "string \<Rightarrow> string \<Rightarrow> bool" where
  "str_less [] [] = False"
| "str_less [] (y # ys) = True"
| "str_less (x # xs) [] = False"
| "str_less (x # xs) (y # ys) =
     ((of_char x :: nat) < of_char y \<or> (x = y \<and> str_less xs ys))"

text \<open>
  Applying an operator to two non-null values. Values of different kinds are never equal,
  and are not ordered (the specification defines ordering for numbers and strings only).
\<close>

fun val_less :: "val \<Rightarrow> val \<Rightarrow> bool" where
  "val_less (Num a) (Num b) = (a < b)"
| "val_less (Str a) (Str b) = str_less a b"
| "val_less _ _ = False"

fun apply_op :: "cmp_op \<Rightarrow> val \<Rightarrow> val \<Rightarrow> bool" where
  "apply_op LT a b = val_less a b"
| "apply_op LE a b = (val_less a b \<or> a = b)"
| "apply_op GT a b = val_less b a"
| "apply_op GE a b = (val_less b a \<or> a = b)"
| "apply_op EQ a b = (a = b)"
| "apply_op NE a b = (a \<noteq> b)"

text \<open>
  Modelled from the spec: \<^verbatim>\<open>evaluate\<close> of the expression engine, which is not among the
  source files (section 4.1 of the specification).
  \<open>Nullity a True\<close> is \<^verbatim>\<open>is_null()\<close>, \<open>Nullity a False\<close> is \<^verbatim>\<open>is_not_null()\<close>;
  \<open>Membership a s True\<close> is \<^verbatim>\<open>is_in(s)\<close>, \<open>Membership a s False\<close> is
  \<^verbatim>\<open>is_not_in(s)\<close>. A comparison on a null value is false; a null value is not a member.
\<close>

fun evaluate :: "'a expr \<Rightarrow> ('a \<Rightarrow> val option) \<Rightarrow> bool" where
  "evaluate (Comparison a op v) obj =
     (case obj a of None \<Rightarrow> False | Some x \<Rightarrow> apply_op op x v)"
| "evaluate (Nullity a is_null) obj = (if is_null then obj a = None else obj a \<noteq> None)"
| "evaluate (Membership a s is_in) obj =
     (case obj a of None \<Rightarrow> \<not> is_in | Some x \<Rightarrow> (if is_in then x \<in> set s else x \<notin> set s))"
| "evaluate (And e1 e2) obj = (let b1 = evaluate e1 obj; b2 = evaluate e2 obj in b1 \<and> b2)"
| "evaluate (Or e1 e2) obj = (let b1 = evaluate e1 obj; b2 = evaluate e2 obj in b1 \<or> b2)"

definition is_null :: "'a \<Rightarrow> 'a expr" where
  "is_null a = Nullity a True"

definition is_not_null :: "'a \<Rightarrow> 'a expr" where
  "is_not_null a = Nullity a False"

definition is_in :: "'a \<Rightarrow> val list \<Rightarrow> 'a expr" where
  "is_in a s = Membership a s True"

definition is_not_in :: "'a \<Rightarrow> val list \<Rightarrow> 'a expr" where
  "is_not_in a s = Membership a s False"

text \<open>The attributes of a \<^verbatim>\<open>DSO\<close> object and their lookup.\<close>

datatype dso_attr =
    DSO_name | DSO_ra | DSO_dec | DSO_type | DSO_maj_ax | DSO_min_ax | DSO_angle
  | DSO_magnitude | DSO_size

fun dso_getattr :: "dso \<Rightarrow> dso_attr \<Rightarrow> val option" where
  "dso_getattr d DSO_name = Some (Str (name d))"
| "dso_getattr d DSO_ra = Some (Num (ra d))"
| "dso_getattr d DSO_dec = Some (Num (dec d))"
| "dso_getattr d DSO_type = Some (TypeVal (type d))"
| "dso_getattr d DSO_maj_ax = map_option Num (maj_ax d)"
| "dso_getattr d DSO_min_ax = map_option Num (min_ax d)"
| "dso_getattr d DSO_angle = map_option Num (angle d)"
| "dso_getattr d DSO_magnitude = map_option Num (magnitude d)"
| "dso_getattr d DSO_size = map_option Num (dso_size d)"

text \<open>The objects of \<^verbatim>\<open>tests/test_models.py\<close>: a star and its attributes.\<close>

record star =
  star_ra :: real
  star_dec :: real
  star_magnitude :: "real option"
  star_bv :: "real option"
  star_hip :: "real option"
  star_name :: "string option"

datatype star_attr = Star_ra | Star_dec | Star_magnitude | Star_bv | Star_hip | Star_name

fun star_getattr :: "star \<Rightarrow> star_attr \<Rightarrow> val option" where
  "star_getattr s Star_ra = Some (Num (star_ra s))"
| "star_getattr s Star_dec = Some (Num (star_dec s))"
| "star_getattr s Star_magnitude = map_option Num (star_magnitude s)"
| "star_getattr s Star_bv = map_option Num (star_bv s)"
| "star_getattr s Star_hip = map_option Num (star_hip s)"
| "star_getattr s Star_name = map_option Str (star_name s)"

section \<open>The plot and its collaborators\<close>

datatype error = KeyError | TypeError | IndexError

text \<open>
  The calls issued to the drawing surface, in the order they are issued:
  \<^verbatim>\<open>_polygon(coords, style, closed)\<close>, \<^verbatim>\<open>rectangle\<close> and \<^verbatim>\<open>ellipse\<close> with their five
  positional arguments in the order of lines 204-218, \<^verbatim>\<open>_text(ra, dec, label, **kwargs)\<close>
  (the keyword arguments are \<^verbatim>\<open>style.label.matplot_kwargs(...)\<close>, kept as the label style)
  and \<^verbatim>\<open>marker(ra, dec, label, style)\<close>.
\<close>

datatype 'l draw_call =
    DrawPolygon "(real \<times> real) list" polygon_style bool
  | DrawRectangle "real \<times> real" real real polygon_style real
  | DrawEllipse "real \<times> real" real real polygon_style real
  | DrawText real real string 'l
  | DrawMarker real real "string option" "'l dso_style"

text \<open>
  The state of the plot object that \<^verbatim>\<open>dsos()\<close> reads and writes. \<open>style\<close> holds the
  style objects of \<^verbatim>\<open>self.style\<close> by DSO type: an assignment to an attribute of a style
  object obtained from it is an update of the entry of that type, as Python objects are
  shared by reference. The store is keyed by DSO type, so it does not tell whether two
  types are registered with one and the same style object; what a write under one type
  does to the entries of the other types is therefore left open, and nothing is stated
  about it below. \<open>objects_dsos\<close> is \<^verbatim>\<open>self._objects.dsos\<close>.
\<close>

record 'l plot =
  style :: "dso_type \<rightharpoonup> 'l dso_style"
  draws :: "'l draw_call list"
  objects_dsos :: "dso list"
  legend_handles :: "string \<rightharpoonup> marker_style"

text \<open>
  The \<^verbatim>\<open>labels\<close> argument: \<^verbatim>\<open>None\<close>, a dictionary, or a \<^verbatim>\<open>DsoLabelMaker\<close> with its
  overrides.
\<close>

datatype labels_arg =
    LabelsNone
  | LabelsDict "string \<rightharpoonup> string"
  | DsoLabelMaker "string \<rightharpoonup> string"

text \<open>
  Modelled from the spec: \<^verbatim>\<open>DsoLabelMaker\<close> is not among the source files. Its \<^verbatim>\<open>get\<close>
  gives the override for the name when there is one, else the catalog name; \<^verbatim>\<open>get\<close> of a
  dictionary is the plain lookup.
\<close>

fun labels_get :: "labels_arg \<Rightarrow> string \<Rightarrow> string option" where
  "labels_get LabelsNone n = None"
| "labels_get (LabelsDict m) n = m n"
| "labels_get (DsoLabelMaker overrides) n =
     (case overrides n of Some l \<Rightarrow> Some l | None \<Rightarrow> Some n)"

text \<open>
  Constants and collaborators that \<^verbatim>\<open>dsos()\<close> uses and that are declared outside the
  files at hand; they are parameters of the model. \<open>in_bounds\<close> is \<^verbatim>\<open>self.in_bounds\<close>.
\<close>

record env =
  ONGC_TYPE :: "dso_type \<rightharpoonup> string"
  ONGC_TYPE_MAP :: "string \<rightharpoonup> dso_type"
  DSO_LEGEND_LABELS :: "dso_type \<rightharpoonup> string"
  DEFAULT_DSO_TYPES :: "dso_type list"
  DSO_LABELS_DEFAULT :: labels_arg
  in_bounds :: "real \<Rightarrow> real \<Rightarrow> bool"

text \<open>
  Modelled from the spec: \<^verbatim>\<open>get_dso_style\<close> of the style registry is not among the source
  files. It returns the style configured for a DSO type, or \<^verbatim>\<open>None\<close>; the object returned
  is the registry's own.
\<close>

definition get_dso_style :: "'l plot \<Rightarrow> dso_type \<Rightarrow> 'l dso_style option" where
  "get_dso_style p t = style p t"

text \<open>
  Modelled from the spec: \<^verbatim>\<open>_add_legend_handle_marker\<close> is not among the source files.
  It registers a legend handle keyed by the legend label, and is skipped when the label
  resolves to none.
\<close>

definition add_legend_handle_marker :: "string option \<Rightarrow> marker_style \<Rightarrow> 'l plot \<Rightarrow> 'l plot" where
  "add_legend_handle_marker legend_label m p =
     (case legend_label of
        None \<Rightarrow> p
      | Some l \<Rightarrow> p\<lparr>legend_handles := (legend_handles p)(l \<mapsto> m)\<rparr>)"

section \<open>Python truthiness\<close>

text \<open>A float column is falsy when it is \<^verbatim>\<open>None\<close> or zero.\<close>

fun truthy :: "real option \<Rightarrow> bool" where
  "truthy None = False"
| "truthy (Some v) = (v \<noteq> 0)"

text \<open>\<^verbatim>\<open>a or b\<close> on float columns.\<close>

definition py_or :: "real option \<Rightarrow> real option \<Rightarrow> real option" where
  "py_or a b = (if truthy a then a else b)"

text \<open>
  Lines 156-157:
  \<^verbatim>\<open>magnitude = d["V-Mag"] or d["B-Mag"] or None\<close>,
  \<^verbatim>\<open>magnitude = float(magnitude) if magnitude else None\<close>.
\<close>

definition resolve_magnitude :: "row \<Rightarrow> real option" where
  "resolve_magnitude d =
     (let magnitude = py_or (py_or (V_Mag d) (B_Mag d)) None
      in if truthy magnitude then magnitude else None)"

text \<open>\<^verbatim>\<open>a or d\<close> where \<open>d\<close> is a number (line 209: \<^verbatim>\<open>angle or 0\<close>).\<close>

definition py_or_num :: "real option \<Rightarrow> real \<Rightarrow> real" where
  "py_or_num a d = (case a of None \<Rightarrow> d | Some v \<Rightarrow> (if v \<noteq> 0 then v else d))"

section \<open>The plotter\<close>

text \<open>
  \<^verbatim>\<open>_plot_dso_polygon\<close> (lines 21-26). \<^verbatim>\<open>coords[0]\<close> raises \<^verbatim>\<open>IndexError\<close> on an
  empty ring.
\<close>

fun plot_dso_polygon :: "polygon \<Rightarrow> 'l dso_style \<Rightarrow> 'l plot \<Rightarrow> error + 'l plot" where
  "plot_dso_polygon [] s p = Inl IndexError"
| "plot_dso_polygon (c # cs) s p =
     (let coords = c # cs;
          coords = coords @ [c];
          coords = coords @ [c]
      in Inr (p\<lparr>draws := draws p @ [DrawPolygon coords (ToPolygonStyle (marker s)) False]\<rparr>))"

text \<open>Lines 190-191: the loop over the polygons of a multi-polygon.\<close>

fun plot_dso_polygons :: "polygon list \<Rightarrow> 'l dso_style \<Rightarrow> 'l plot \<Rightarrow> error + 'l plot" where
  "plot_dso_polygons [] s p = Inr p"
| "plot_dso_polygons (g # gs) s p =
     (case plot_dso_polygon g s p of
        Inl e \<Rightarrow> Inl e
      | Inr p' \<Rightarrow> plot_dso_polygons gs s p')"

text \<open>Lines 194-199.\<close>

definition maj_ax_degrees :: "real \<Rightarrow> real" where
  "maj_ax_degrees maj = (maj / 60) / 2"

definition min_ax_degrees :: "real \<Rightarrow> real option \<Rightarrow> real" where
  "min_ax_degrees maj mn =
     (case mn of
        None \<Rightarrow> maj_ax_degrees maj
      | Some m \<Rightarrow> (if m \<noteq> 0 then (m / 60) / 2 else maj_ax_degrees maj))"

text \<open>Lines 192-218: the branch taken when the major axis is truthy.\<close>

definition plot_extent :: "row \<Rightarrow> real \<Rightarrow> real \<Rightarrow> real \<Rightarrow> 'l dso_style \<Rightarrow> 'l plot \<Rightarrow> 'l plot" where
  "plot_extent d r dc maj s p =
     (let poly_style = ToPolygonStyle (marker s) in
      if symbol (marker s) = SQUARE
      then p\<lparr>draws := draws p @
             [DrawRectangle (r / 15, dc) (min_ax_degrees maj (MinAx d) * 2)
                (maj_ax_degrees maj * 2) poly_style (py_or_num (PosAng d) 0)]\<rparr>
      else p\<lparr>draws := draws p @
             [DrawEllipse (r / 15, dc) (min_ax_degrees maj (MinAx d) * 2)
                (maj_ax_degrees maj * 2) poly_style (py_or_num (PosAng d) 0)]\<rparr>)"

text \<open>Lines 186-218: the shape of an object plotted at its true size.\<close>

definition plot_shape :: "row \<Rightarrow> real \<Rightarrow> real \<Rightarrow> 'l dso_style \<Rightarrow> 'l plot \<Rightarrow> error + 'l plot" where
  "plot_shape d r dc s p =
     (if ''Polygon'' = geom_type (geometry d) then
        (case geometry d of Polygon g \<Rightarrow> plot_dso_polygon g s p | _ \<Rightarrow> Inr p)
      else if ''MultiPolygon'' = geom_type (geometry d) then
        (case geometry d of MultiPolygon gs \<Rightarrow> plot_dso_polygons gs s p | _ \<Rightarrow> Inr p)
      else
        (case MajAx d of
           None \<Rightarrow> Inr p
         | Some maj \<Rightarrow> (if maj \<noteq> 0 then Inr (plot_extent d r dc maj s p) else Inr p)))"

text \<open>
  Lines 185-235: the dispatch on \<^verbatim>\<open>true_size and d.size_deg2 is not None\<close>. The test
  \<^verbatim>\<open>if label:\<close> fails on \<^verbatim>\<open>None\<close> and on the empty string.
\<close>

definition plot_object ::
  "bool \<Rightarrow> row \<Rightarrow> real \<Rightarrow> real \<Rightarrow> 'l dso_style \<Rightarrow> string option \<Rightarrow> 'l plot \<Rightarrow> error + 'l plot" where
  "plot_object tsize d r dc s lbl p =
     (if tsize \<and> size_deg2 d \<noteq> None then
        (case plot_shape d r dc s p of
           Inl e \<Rightarrow> Inl e
         | Inr p' \<Rightarrow>
             (case lbl of
                None \<Rightarrow> Inr p'
              | Some l \<Rightarrow>
                  (if l \<noteq> [] then Inr (p'\<lparr>draws := draws p' @ [DrawText (r / 15) dc l (label s)]\<rparr>)
                   else Inr p')))
      else Inr (p\<lparr>draws := draws p @ [DrawMarker (r / 15) dc lbl s]\<rparr>))"

text \<open>The arguments of \<^verbatim>\<open>dsos()\<close> after binding (lines 86-96).\<close>

record dsos_args =
  mag :: real
  types :: "dso_type list"
  true_size :: bool
  labels :: labels_arg
  legend_labels :: "(dso_type \<rightharpoonup> string) option"
  alpha_fn :: "(dso \<Rightarrow> real) option"
  where_arg :: "dso_attr expr list option"
  where_labels :: "dso_attr expr list option"

text \<open>The local variables that the loop reads, as they stand after lines 123-137.\<close>

record dsos_locals =
  l_true_size :: bool
  l_labels :: labels_arg
  l_legend_labels :: "dso_type \<rightharpoonup> string"
  l_alpha_fn :: "(dso \<Rightarrow> real) option"
  l_where :: "dso_attr expr list"
  l_where_labels :: "dso_attr expr list"

text \<open>Lines 158-168.\<close>

definition make_dso :: "row \<Rightarrow> real \<Rightarrow> real \<Rightarrow> dso_type \<Rightarrow> dso" where
  "make_dso d r dc t =
     \<lparr>name = Name d, ra = r / 15, dec = dc, type = t, maj_ax = MajAx d, min_ax = MinAx d,
      angle = PosAng d, magnitude = resolve_magnitude d, dso_size = size_deg2 d\<rparr>"

text \<open>\<^verbatim>\<open>all([e.evaluate(_dso) for e in where])\<close>.\<close>

definition all_evaluate :: "dso_attr expr list \<Rightarrow> dso \<Rightarrow> bool" where
  "all_evaluate es obj = list_all (\<lambda>e. evaluate e (dso_getattr obj)) es"

text \<open>
  Lines 170-176: the test that makes the loop \<^verbatim>\<open>continue\<close>. The three entries of the
  list are all computed before \<^verbatim>\<open>any\<close> looks at them.
\<close>

definition skip_object ::
  "'l dso_style option \<Rightarrow> dso_attr expr list \<Rightarrow> env \<Rightarrow> dso \<Rightarrow> real \<Rightarrow> real \<Rightarrow> bool" where
  "skip_object sty wh E obj r dc =
     (let no_style = (sty = None);
          rejected = (\<not> all_evaluate wh obj);
          outside = (\<not> in_bounds E (r / 15) dc)
      in no_style \<or> rejected \<or> outside)"

text \<open>
  One iteration of the loop (lines 148-239). \<^verbatim>\<open>ONGC_TYPE_MAP[d.Type]\<close> raises
  \<^verbatim>\<open>KeyError\<close> on an unknown code, and \<^verbatim>\<open>ra / 15\<close> raises \<^verbatim>\<open>TypeError\<close> on a null
  position. The assignment on line 180 writes into the style object of the registry.
\<close>

definition dsos_row :: "env \<Rightarrow> dsos_locals \<Rightarrow> row \<Rightarrow> 'l plot \<Rightarrow> error + 'l plot" where
  "dsos_row E L d p =
     (let lbl = labels_get (l_labels L) (Name d) in
      case ONGC_TYPE_MAP E (Type d) of
        None \<Rightarrow> Inl KeyError
      | Some dso_type \<Rightarrow>
          (case (ra_degrees d, dec_degrees d) of
             (Some r, Some dc) \<Rightarrow>
               (let sty = get_dso_style p dso_type;
                    legend_label = l_legend_labels L dso_type;
                    obj = make_dso d r dc dso_type
                in if skip_object sty (l_where L) E obj r dc then Inr p
                   else
                     (case sty of
                        None \<Rightarrow> Inr p
                      | Some s0 \<Rightarrow>
                          (let a = (case l_alpha_fn L of
                                      Some f \<Rightarrow> f obj
                                    | None \<Rightarrow> alpha (marker s0));
                               s = s0\<lparr>marker := (marker s0)\<lparr>alpha := a\<rparr>\<rparr>;
                               p1 = p\<lparr>style := (style p)(dso_type \<mapsto> s)\<rparr>;
                               lbl = (if l_where_labels L \<noteq> [] \<and> \<not> all_evaluate (l_where_labels L) obj
                                      then None else lbl)
                           in case plot_object (l_true_size L) d r dc s lbl p1 of
                                Inl e \<Rightarrow> Inl e
                              | Inr p2 \<Rightarrow>
                                  Inr (add_legend_handle_marker legend_label (marker s)
                                         (p2\<lparr>objects_dsos := objects_dsos p2 @ [obj]\<rparr>)))))
           | _ \<Rightarrow> Inl TypeError))"

text \<open>The loop of line 147, stopping at the first exception.\<close>

fun dsos_loop :: "env \<Rightarrow> dsos_locals \<Rightarrow> row list \<Rightarrow> 'l plot \<Rightarrow> error + 'l plot" where
  "dsos_loop E L [] p = Inr p"
| "dsos_loop E L (d # ds) p =
     (case dsos_row E L d p of
        Inl e \<Rightarrow> Inl e
      | Inr p' \<Rightarrow> dsos_loop E L ds p')"

text \<open>Line 140: \<^verbatim>\<open>[ONGC_TYPE[dtype] for dtype in types]\<close>, a \<^verbatim>\<open>KeyError\<close> on a missing type.\<close>

fun ongc_types :: "env \<Rightarrow> dso_type list \<Rightarrow> error + string list" where
  "ongc_types E [] = Inr []"
| "ongc_types E (t # ts) =
     (case ONGC_TYPE E t of
        None \<Rightarrow> Inl KeyError
      | Some c \<Rightarrow> (case ongc_types E ts of Inl e \<Rightarrow> Inl e | Inr cs \<Rightarrow> Inr (c # cs)))"

text \<open>Lines 123-127: the selection predicates in force.\<close>

definition resolve_where :: "real \<Rightarrow> dso_attr expr list option \<Rightarrow> dso_attr expr list" where
  "resolve_where m w =
     (let w = (case w of None \<Rightarrow> [] | Some es \<Rightarrow> es)
      in if w = [] then [Or (is_null DSO_magnitude) (Comparison DSO_magnitude LE (Num m))]
         else w)"

text \<open>Lines 129-132.\<close>

fun resolve_labels :: "labels_arg \<Rightarrow> labels_arg" where
  "resolve_labels LabelsNone = LabelsDict Map.empty"
| "resolve_labels (LabelsDict m) = DsoLabelMaker m"
| "resolve_labels (DsoLabelMaker m) = DsoLabelMaker m"

text \<open>Lines 134-137.\<close>

definition resolve_legend_labels :: "env \<Rightarrow> (dso_type \<rightharpoonup> string) option \<Rightarrow> (dso_type \<rightharpoonup> string)" where
  "resolve_legend_labels E ll =
     (case ll of None \<Rightarrow> Map.empty | Some m \<Rightarrow> DSO_LEGEND_LABELS E ++ m)"

definition dsos_prepare :: "env \<Rightarrow> dsos_args \<Rightarrow> dsos_locals" where
  "dsos_prepare E A =
     \<lparr>l_true_size = true_size A,
      l_labels = resolve_labels (labels A),
      l_legend_labels = resolve_legend_labels E (legend_labels A),
      l_alpha_fn = alpha_fn A,
      l_where = resolve_where (mag A) (where_arg A),
      l_where_labels = (case where_labels A of None \<Rightarrow> [] | Some es \<Rightarrow> es)\<rparr>"

text \<open>
  \<^verbatim>\<open>dsos()\<close> (lines 86-239). \<open>nearby_dsos\<close> is the table read on lines 116-121; lines
  141-145 keep the rows of the requested types that have a position.
\<close>

definition dsos :: "env \<Rightarrow> row list \<Rightarrow> dsos_args \<Rightarrow> 'l plot \<Rightarrow> error + 'l plot" where
  "dsos E nearby_dsos A p =
     (case ongc_types E (types A) of
        Inl e \<Rightarrow> Inl e
      | Inr dso_types \<Rightarrow>
          dsos_loop E (dsos_prepare E A)
            (filter (\<lambda>d. Type d \<in> set dso_types \<and> ra_degrees d \<noteq> None \<and> dec_degrees d \<noteq> None)
               nearby_dsos) p)"

section \<open>Calling conventions and the convenience wrappers\<close>

text \<open>
  The keyword arguments of a call, \<^verbatim>\<open>**kwargs\<close>: for each parameter of \<^verbatim>\<open>dsos()\<close>,
  \<open>None\<close> when the keyword is not supplied and \<open>Some v\<close> when it is; \<open>kw_other\<close>
  lists the keywords supplied that are not parameters of \<^verbatim>\<open>dsos()\<close>.
\<close>

record dsos_kwargs =
  kw_mag :: "real option"
  kw_types :: "dso_type list option"
  kw_true_size :: "bool option"
  kw_labels :: "labels_arg option"
  kw_legend_labels :: "(dso_type \<rightharpoonup> string) option option"
  kw_alpha_fn :: "(dso \<Rightarrow> real) option option"
  kw_where :: "dso_attr expr list option option"
  kw_where_labels :: "dso_attr expr list option option"
  kw_other :: "string list"

text \<open>
  A positional argument, \<^verbatim>\<open>*args\<close>: a value of the kind that one of the parameters of
  \<^verbatim>\<open>dsos()\<close> is annotated with.
\<close>

datatype pyarg =
    ArgFloat real
  | ArgTypes "dso_type list"
  | ArgBool bool
  | ArgLabels labels_arg
  | ArgLegendLabels "(dso_type \<rightharpoonup> string) option"
  | ArgAlphaFn "(dso \<Rightarrow> real) option"
  | ArgExprs "dso_attr expr list option"

text \<open>
  Binding the positional argument at index \<open>i\<close> to the parameter at that index of the
  signature on lines 86-96. Python raises \<^verbatim>\<open>TypeError\<close> when the parameter is also
  given by keyword, and when there are more positional arguments than parameters. A value
  of another kind than the parameter's annotation is outside this model and is reported as
  \<open>TypeError\<close> too.
\<close>

definition bind_one :: "nat \<Rightarrow> pyarg \<Rightarrow> dsos_kwargs \<Rightarrow> error + dsos_kwargs" where
  "bind_one i a kw =
     (case (i, a) of
        (0, ArgFloat m) \<Rightarrow>
          (if kw_mag kw \<noteq> None then Inl TypeError else Inr (kw\<lparr>kw_mag := Some m\<rparr>))
      | (Suc 0, ArgTypes ts) \<Rightarrow>
          (if kw_types kw \<noteq> None then Inl TypeError else Inr (kw\<lparr>kw_types := Some ts\<rparr>))
      | (Suc (Suc 0), ArgBool b) \<Rightarrow>
          (if kw_true_size kw \<noteq> None then Inl TypeError else Inr (kw\<lparr>kw_true_size := Some b\<rparr>))
      | (Suc (Suc (Suc 0)), ArgLabels l) \<Rightarrow>
          (if kw_labels kw \<noteq> None then Inl TypeError else Inr (kw\<lparr>kw_labels := Some l\<rparr>))
      | (Suc (Suc (Suc (Suc 0))), ArgLegendLabels l) \<Rightarrow>
          (if kw_legend_labels kw \<noteq> None then Inl TypeError
           else Inr (kw\<lparr>kw_legend_labels := Some l\<rparr>))
      | (Suc (Suc (Suc (Suc (Suc 0)))), ArgAlphaFn f) \<Rightarrow>
          (if kw_alpha_fn kw \<noteq> None then Inl TypeError else Inr (kw\<lparr>kw_alpha_fn := Some f\<rparr>))
      | (Suc (Suc (Suc (Suc (Suc (Suc 0))))), ArgExprs w) \<Rightarrow>
          (if kw_where kw \<noteq> None then Inl TypeError else Inr (kw\<lparr>kw_where := Some w\<rparr>))
      | (Suc (Suc (Suc (Suc (Suc (Suc (Suc 0)))))), ArgExprs w) \<Rightarrow>
          (if kw_where_labels kw \<noteq> None then Inl TypeError
           else Inr (kw\<lparr>kw_where_labels := Some w\<rparr>))
      | _ \<Rightarrow> Inl TypeError)"

fun bind_positional :: "nat \<Rightarrow> pyarg list \<Rightarrow> dsos_kwargs \<Rightarrow> error + dsos_kwargs" where
  "bind_positional i [] kw = Inr kw"
| "bind_positional i (a # as) kw =
     (case bind_one i a kw of
        Inl e \<Rightarrow> Inl e
      | Inr kw' \<Rightarrow> bind_positional (Suc i) as kw')"

text \<open>The defaults of the signature (lines 88-95) for the parameters not supplied.\<close>

definition apply_defaults :: "env \<Rightarrow> dsos_kwargs \<Rightarrow> dsos_args" where
  "apply_defaults E kw =
     \<lparr>mag = (case kw_mag kw of None \<Rightarrow> 8 | Some m \<Rightarrow> m),
      types = (case kw_types kw of None \<Rightarrow> DEFAULT_DSO_TYPES E | Some ts \<Rightarrow> ts),
      true_size = (case kw_true_size kw of None \<Rightarrow> True | Some b \<Rightarrow> b),
      labels = (case kw_labels kw of None \<Rightarrow> DSO_LABELS_DEFAULT E | Some l \<Rightarrow> l),
      legend_labels =
        (case kw_legend_labels kw of None \<Rightarrow> Some (DSO_LEGEND_LABELS E) | Some l \<Rightarrow> l),
      alpha_fn = (case kw_alpha_fn kw of None \<Rightarrow> None | Some f \<Rightarrow> f),
      where_arg = (case kw_where kw of None \<Rightarrow> None | Some w \<Rightarrow> w),
      where_labels = (case kw_where_labels kw of None \<Rightarrow> None | Some w \<Rightarrow> w)\<rparr>"

text \<open>
  The call \<^verbatim>\<open>self.dsos(*args, **kwargs)\<close>: a keyword that is not a parameter raises
  \<^verbatim>\<open>TypeError\<close>.
\<close>

definition dsos_call ::
  "env \<Rightarrow> row list \<Rightarrow> pyarg list \<Rightarrow> dsos_kwargs \<Rightarrow> 'l plot \<Rightarrow> error + 'l plot" where
  "dsos_call E nearby_dsos args kwargs p =
     (case bind_positional 0 args kwargs of
        Inl e \<Rightarrow> Inl e
      | Inr kw \<Rightarrow>
          (if kw_other kw \<noteq> [] then Inl TypeError
           else dsos E nearby_dsos (apply_defaults E kw) p))"

text \<open>
  The call \<^verbatim>\<open>self.dsos(types=ts, **kwargs)\<close> that each wrapper makes: \<^verbatim>\<open>TypeError\<close> when
  \<^verbatim>\<open>kwargs\<close> has the key \<^verbatim>\<open>types\<close> as well.
\<close>

definition dsos_with_types ::
  "env \<Rightarrow> row list \<Rightarrow> dso_type list \<Rightarrow> dsos_kwargs \<Rightarrow> 'l plot \<Rightarrow> error + 'l plot" where
  "dsos_with_types E nearby_dsos ts kwargs p =
     (if kw_types kwargs \<noteq> None then Inl TypeError
      else dsos_call E nearby_dsos [] (kwargs\<lparr>kw_types := Some ts\<rparr>) p)"

text \<open>The wrappers (lines 28-84). Each takes \<^verbatim>\<open>*args\<close> and \<^verbatim>\<open>**kwargs\<close>.\<close>

definition open_clusters ::
  "env \<Rightarrow> row list \<Rightarrow> pyarg list \<Rightarrow> dsos_kwargs \<Rightarrow> 'l plot \<Rightarrow> error + 'l plot" where
  "open_clusters E nearby_dsos args kwargs p =
     dsos_with_types E nearby_dsos [OPEN_CLUSTER] kwargs p"

definition globular_clusters ::
  "env \<Rightarrow> row list \<Rightarrow> pyarg list \<Rightarrow> dsos_kwargs \<Rightarrow> 'l plot \<Rightarrow> error + 'l plot" where
  "globular_clusters E nearby_dsos args kwargs p =
     dsos_with_types E nearby_dsos [GLOBULAR_CLUSTER] kwargs p"

definition galaxies ::
  "env \<Rightarrow> row list \<Rightarrow> pyarg list \<Rightarrow> dsos_kwargs \<Rightarrow> 'l plot \<Rightarrow> error + 'l plot" where
  "galaxies E nearby_dsos args kwargs p =
     dsos_with_types E nearby_dsos [GALAXY, GALAXY_PAIR, GALAXY_TRIPLET] kwargs p"

definition nebula ::
  "env \<Rightarrow> row list \<Rightarrow> pyarg list \<Rightarrow> dsos_kwargs \<Rightarrow> 'l plot \<Rightarrow> error + 'l plot" where
  "nebula E nearby_dsos args kwargs p =
     dsos_with_types E nearby_dsos
       [NEBULA, PLANETARY_NEBULA, EMISSION_NEBULA, STAR_CLUSTER_NEBULA, REFLECTION_NEBULA]
       kwargs p"

text \<open>
  The reading of the specification, for comparison: the wrapper's types preset and every
  other supplied argument, positional and keyword, forwarded unchanged, that is
  \<^verbatim>\<open>self.dsos(*args, types=ts, **kwargs)\<close>.
\<close>

definition forward_all_spec ::
  "env \<Rightarrow> row list \<Rightarrow> dso_type list \<Rightarrow> pyarg list \<Rightarrow> dsos_kwargs \<Rightarrow> 'l plot \<Rightarrow> error + 'l plot" where
  "forward_all_spec E nearby_dsos ts args kwargs p =
     (if kw_types kwargs \<noteq> None then Inl TypeError
      else dsos_call E nearby_dsos args (kwargs\<lparr>kw_types := Some ts\<rparr>) p)"

section \<open>Readings of the specification, for comparison with the code\<close>

text \<open>
  The resolved magnitude as the specification words it: the V-Mag value, falling back to
  B-Mag when V-Mag is absent; and the default selection on it: unknown, or at most the limit.
\<close>

definition resolved_magnitude_spec :: "row \<Rightarrow> real option" where
  "resolved_magnitude_spec d = (case V_Mag d of Some v \<Rightarrow> Some v | None \<Rightarrow> B_Mag d)"

definition default_included_spec :: "real \<Rightarrow> row \<Rightarrow> bool" where
  "default_included_spec m d =
     (case resolved_magnitude_spec d of None \<Rightarrow> True | Some x \<Rightarrow> x \<le> m)"

text \<open>
  The half-minor-axis as the specification words it: the formula applied to the minor axis
  when present, else the half-major-axis.
\<close>

definition min_ax_degrees_spec :: "real \<Rightarrow> real option \<Rightarrow> real" where
  "min_ax_degrees_spec maj mn =
     (case mn of None \<Rightarrow> (maj / 60) / 2 | Some m \<Rightarrow> (m / 60) / 2)"

text \<open>Whether a ring of coordinates is closed: its first vertex is again its last element.\<close>

fun closed_ring :: "(real \<times> real) list \<Rightarrow> bool" where
  "closed_ring [] = False"
| "closed_ring (c # rest) = (rest \<noteq> [] \<and> last rest = c)"

fun polygon_call_closed :: "'l draw_call \<Rightarrow> bool" where
  "polygon_call_closed (DrawPolygon coords st cl) = closed_ring coords"
| "polygon_call_closed _ = True"

text \<open>The marker alpha that the registry holds for a DSO type.\<close>

definition registry_alpha :: "'l plot \<Rightarrow> dso_type \<Rightarrow> real option" where
  "registry_alpha p t = map_option (\<lambda>s. alpha (marker s)) (style p t)"

text \<open>What a run has drawn and which objects it has recorded; nothing on an exception.\<close>

definition draws_of :: "error + 'l plot \<Rightarrow> 'l draw_call list" where
  "draws_of res = (case res of Inl e \<Rightarrow> [] | Inr p \<Rightarrow> draws p)"

definition objects_of :: "error + 'l plot \<Rightarrow> dso list" where
  "objects_of res = (case res of Inl e \<Rightarrow> [] | Inr p \<Rightarrow> objects_dsos p)"

section \<open>Example inputs\<close>

definition ex_env :: env where
  "ex_env =
     \<lparr>ONGC_TYPE = [OPEN_CLUSTER \<mapsto> ''OCl'', GALAXY \<mapsto> ''G''],
      ONGC_TYPE_MAP = [''OCl'' \<mapsto> OPEN_CLUSTER, ''G'' \<mapsto> GALAXY],
      DSO_LEGEND_LABELS = [OPEN_CLUSTER \<mapsto> ''Open Cluster''],
      DEFAULT_DSO_TYPES = [OPEN_CLUSTER, GALAXY],
      DSO_LABELS_DEFAULT = DsoLabelMaker Map.empty,
      in_bounds = (\<lambda>r dc. True)\<rparr>"

definition ex_style :: "unit dso_style" where
  "ex_style = \<lparr>marker = \<lparr>symbol = SQUARE, alpha = 1\<rparr>, label = ()\<rparr>"

definition ex_plot :: "unit plot" where
  "ex_plot =
     \<lparr>style = [OPEN_CLUSTER \<mapsto> ex_style], draws = [], objects_dsos = [],
      legend_handles = Map.empty\<rparr>"

text \<open>An open cluster with a major axis only and B-Mag 9.1 (the scenarios of the specification).\<close>

definition ex_row :: row where
  "ex_row =
     \<lparr>Name = ''NGC1'', Type = ''OCl'', ra_degrees = Some 30, dec_degrees = Some 10,
      MajAx = Some 10, MinAx = None, PosAng = None, V_Mag = None, B_Mag = Some (91 / 10),
      size_deg2 = Some (1 / 2), geometry = Point\<rparr>"

definition ex_args :: dsos_args where
  "ex_args =
     \<lparr>mag = 8, types = [OPEN_CLUSTER], true_size = True, labels = DsoLabelMaker Map.empty,
      legend_labels = Some Map.empty, alpha_fn = None, where_arg = None, where_labels = None\<rparr>"

definition ex_kwargs :: dsos_kwargs where
  "ex_kwargs =
     \<lparr>kw_mag = None, kw_types = None, kw_true_size = None, kw_labels = None,
      kw_legend_labels = None, kw_alpha_fn = None, kw_where = None, kw_where_labels = None,
      kw_other = []\<rparr>"

text \<open>The star of \<^verbatim>\<open>tests/test_models.py\<close> (lines 12 and 28).\<close>

definition fakestar :: star where
  "fakestar =
     \<lparr>star_ra = 2, star_dec = 20, star_magnitude = Some 4, star_bv = Some (212 / 100),
      star_hip = None, star_name = Some ''fakestar''\<rparr>"

section \<open>Supporting lemmas\<close>

lemmas ex_defs = ex_env_def ex_row_def ex_args_def ex_plot_def ex_style_def ex_kwargs_def

lemmas run_defs =
  dsos_def dsos_prepare_def resolve_where_def dsos_row_def skip_object_def all_evaluate_def
  make_dso_def resolve_magnitude_def py_or_def get_dso_style_def is_null_def plot_object_def
  plot_shape_def plot_extent_def add_legend_handle_marker_def resolve_legend_labels_def
  maj_ax_degrees_def min_ax_degrees_def py_or_num_def Let_def

text \<open>The two tests of \<^verbatim>\<open>TestStar\<close> (lines 11-37 of \<^verbatim>\<open>tests/test_models.py\<close>) on the model.\<close>

lemma test_star_true_expressions:
  "list_all (\<lambda>e. evaluate e (star_getattr fakestar))
     [Comparison Star_ra LT (Num 24),
      Comparison Star_dec GT (Num 5),
      Comparison Star_ra LE (Num 2),
      is_null Star_hip,
      is_in Star_name [Str ''stuff'', Str ''sirius'', Str ''fakestar''],
      Or (Comparison Star_name EQ (Str ''wrong'')) (Comparison Star_name EQ (Str ''fakestar'')),
      Comparison Star_name NE (Str ''noname''),
      Or (Comparison Star_name EQ (Str ''bellatrix''))
         (And (Comparison Star_name EQ (Str ''fakestar'')) (Comparison Star_magnitude LT (Num 5)))]"
  by (simp add: fakestar_def is_null_def is_in_def)

lemma test_star_false_expressions:
  "list_all (\<lambda>e. \<not> evaluate e (star_getattr fakestar))
     [Comparison Star_ra GT (Num 4),
      Comparison Star_dec LT (Num 5),
      is_not_null Star_hip,
      is_not_in Star_name [Str ''stuff'', Str ''sirius'', Str ''fakestar''],
      Or (Comparison Star_name EQ (Str ''wrong'')) (Comparison Star_name NE (Str ''fakestar''))]"
  by (simp add: fakestar_def is_not_null_def is_not_in_def)

lemma resolve_magnitude_eq:
  "resolve_magnitude d =
     (if truthy (V_Mag d) then V_Mag d else if truthy (B_Mag d) then B_Mag d else None)"
  by (simp add: resolve_magnitude_def py_or_def)

lemma prepare_where_given:
  "where_arg A = Some w \<Longrightarrow> w \<noteq> [] \<Longrightarrow> dsos_prepare E (A\<lparr>mag := m\<rparr>) = dsos_prepare E A"
  by (simp add: dsos_prepare_def resolve_where_def)

lemma default_where_eval:
  "where_arg A = None \<or> where_arg A = Some [] \<Longrightarrow>
   all_evaluate (l_where (dsos_prepare E A)) obj =
     (case magnitude obj of None \<Rightarrow> True | Some m \<Rightarrow> m \<le> mag A)"
  by (auto simp add: dsos_prepare_def resolve_where_def all_evaluate_def is_null_def
        split: option.splits)

lemma plot_dso_polygon_closed:
  "plot_dso_polygon g s p = Inr p' \<Longrightarrow> list_all polygon_call_closed (draws p) \<Longrightarrow>
   list_all polygon_call_closed (draws p')"
  by (cases g) auto

lemma plot_dso_polygons_closed:
  "plot_dso_polygons gs s p = Inr p' \<Longrightarrow> list_all polygon_call_closed (draws p) \<Longrightarrow>
   list_all polygon_call_closed (draws p')"
proof (induction gs arbitrary: p)
  case Nil
  then show ?case by simp
next
  case (Cons g gs)
  then show ?case
    by (auto split: sum.splits dest: plot_dso_polygon_closed)
qed

lemma plot_shape_closed:
  "plot_shape d r dc s p = Inr p' \<Longrightarrow> list_all polygon_call_closed (draws p) \<Longrightarrow>
   list_all polygon_call_closed (draws p')"
  by (cases "geometry d")
     (auto simp add: plot_shape_def plot_extent_def Let_def split: option.splits if_splits
           dest: plot_dso_polygon_closed plot_dso_polygons_closed)

lemma plot_object_closed:
  "plot_object ts d r dc s lbl p = Inr p' \<Longrightarrow> list_all polygon_call_closed (draws p) \<Longrightarrow>
   list_all polygon_call_closed (draws p')"
  by (auto simp add: plot_object_def split: sum.splits option.splits if_splits
        dest: plot_shape_closed)

lemma dsos_row_closed:
  "dsos_row E L d p = Inr p' \<Longrightarrow> list_all polygon_call_closed (draws p) \<Longrightarrow>
   list_all polygon_call_closed (draws p')"
  by (auto simp add: dsos_row_def Let_def add_legend_handle_marker_def
        split: sum.splits option.splits if_splits dest!: plot_object_closed)

lemma dsos_loop_closed:
  "dsos_loop E L ds p = Inr p' \<Longrightarrow> list_all polygon_call_closed (draws p) \<Longrightarrow>
   list_all polygon_call_closed (draws p')"
proof (induction ds arbitrary: p)
  case Nil
  then show ?case by simp
next
  case (Cons d ds)
  then show ?case
    by (auto split: sum.splits dest: dsos_row_closed)
qed

lemma plot_dso_polygon_style: "plot_dso_polygon g s p = Inr p' \<Longrightarrow> style p' = style p"
  by (cases g) auto

lemma plot_dso_polygons_style: "plot_dso_polygons gs s p = Inr p' \<Longrightarrow> style p' = style p"
proof (induction gs arbitrary: p)
  case Nil
  then show ?case by simp
next
  case (Cons g gs)
  then show ?case
    by (auto split: sum.splits dest: plot_dso_polygon_style)
qed

lemma plot_shape_style: "plot_shape d r dc s p = Inr p' \<Longrightarrow> style p' = style p"
  by (cases "geometry d")
     (auto simp add: plot_shape_def plot_extent_def Let_def split: option.splits if_splits
           dest: plot_dso_polygon_style plot_dso_polygons_style)

lemma plot_object_style: "plot_object ts d r dc s lbl p = Inr p' \<Longrightarrow> style p' = style p"
  by (auto simp add: plot_object_def split: sum.splits option.splits if_splits
        dest: plot_shape_style)

section \<open>The expression engine\<close>

text \<open>
  C7. For every object and expressions \<open>e1\<close>, \<open>e2\<close>: evaluating \<open>e1 & e2\<close> gives the
  conjunction of the two evaluations, evaluating \<open>e1 | e2\<close> their disjunction, and for
  every attribute \<open>is_null\<close> evaluates to the negation of \<open>is_not_null\<close>.
\<close>

theorem evaluate_and_or_nullity:
  "evaluate (And e1 e2) obj = (evaluate e1 obj \<and> evaluate e2 obj)
   \<and> evaluate (Or e1 e2) obj = (evaluate e1 obj \<or> evaluate e2 obj)
   \<and> evaluate (is_null a) obj = (\<not> evaluate (is_not_null a) obj)"
  by (simp add: is_null_def is_not_null_def)

text \<open>C7 on the star of the tests: name and magnitude for the connectives, the null \<^verbatim>\<open>hip\<close>.\<close>

theorem evaluate_and_or_nullity_witness:
  "evaluate (And (Comparison Star_name EQ (Str ''fakestar'')) (Comparison Star_magnitude LT (Num 5)))
     (star_getattr fakestar)
   \<and> evaluate (Or (Comparison Star_name EQ (Str ''wrong'')) (Comparison Star_name EQ (Str ''fakestar'')))
     (star_getattr fakestar)
   \<and> evaluate (is_null Star_hip) (star_getattr fakestar)
   \<and> \<not> evaluate (is_not_null Star_hip) (star_getattr fakestar)"
  using evaluate_and_or_nullity
    [of "Comparison Star_name EQ (Str ''fakestar'')" "Comparison Star_magnitude LT (Num 5)"
        "star_getattr fakestar" Star_hip]
    evaluate_and_or_nullity
    [of "Comparison Star_name EQ (Str ''wrong'')" "Comparison Star_name EQ (Str ''fakestar'')"
        "star_getattr fakestar" Star_hip]
  by (simp add: fakestar_def is_null_def)

section \<open>Selection\<close>

text \<open>
  C1. When \<^verbatim>\<open>where\<close> is supplied as a non-empty list, the \<^verbatim>\<open>mag\<close> argument has no effect:
  for any two limits the whole run of \<^verbatim>\<open>dsos()\<close> is the same, hence also the objects plotted.
\<close>

theorem dsos_where_overrides_mag:
  assumes "where_arg A = Some w" and "w \<noteq> []"
  shows "dsos E nearby_dsos (A\<lparr>mag := m1\<rparr>) p = dsos E nearby_dsos (A\<lparr>mag := m2\<rparr>) p"
proof -
  have "dsos_prepare E (A\<lparr>mag := m1\<rparr>) = dsos_prepare E (A\<lparr>mag := m2\<rparr>)"
    using assms by (simp add: prepare_where_given)
  then show ?thesis
    by (simp add: dsos_def split: sum.split)
qed

text \<open>
  C1 on the scenario of the specification: \<^verbatim>\<open>where=[DSO.magnitude <= 8]\<close> alongside
  \<^verbatim>\<open>mag=3\<close>; an object of magnitude 5 is plotted, as it is with \<^verbatim>\<open>mag=100\<close>.
\<close>

theorem dsos_where_overrides_mag_witness:
  "where_arg (ex_args\<lparr>where_arg := Some [Comparison DSO_magnitude LE (Num 8)]\<rparr>)
     = Some [Comparison DSO_magnitude LE (Num 8)]
   \<and> [Comparison DSO_magnitude LE (Num 8)] \<noteq> []
   \<and> dsos ex_env [ex_row\<lparr>V_Mag := Some 5\<rparr>]
        (ex_args\<lparr>where_arg := Some [Comparison DSO_magnitude LE (Num 8)], mag := 3\<rparr>) ex_plot
     = dsos ex_env [ex_row\<lparr>V_Mag := Some 5\<rparr>]
        (ex_args\<lparr>where_arg := Some [Comparison DSO_magnitude LE (Num 8)], mag := 100\<rparr>) ex_plot
   \<and> map name (objects_of (dsos ex_env [ex_row\<lparr>V_Mag := Some 5\<rparr>]
        (ex_args\<lparr>where_arg := Some [Comparison DSO_magnitude LE (Num 8)], mag := 3\<rparr>) ex_plot))
     = [''NGC1'']"
proof -
  have same: "dsos ex_env [ex_row\<lparr>V_Mag := Some 5\<rparr>]
        (ex_args\<lparr>where_arg := Some [Comparison DSO_magnitude LE (Num 8)], mag := 3\<rparr>) ex_plot
     = dsos ex_env [ex_row\<lparr>V_Mag := Some 5\<rparr>]
        (ex_args\<lparr>where_arg := Some [Comparison DSO_magnitude LE (Num 8)], mag := 100\<rparr>) ex_plot"
    using dsos_where_overrides_mag
      [of "ex_args\<lparr>where_arg := Some [Comparison DSO_magnitude LE (Num 8)]\<rparr>"
          "[Comparison DSO_magnitude LE (Num 8)]" ex_env "[ex_row\<lparr>V_Mag := Some 5\<rparr>]" 3 ex_plot 100]
    by simp
  have plotted: "map name (objects_of (dsos ex_env [ex_row\<lparr>V_Mag := Some 5\<rparr>]
        (ex_args\<lparr>where_arg := Some [Comparison DSO_magnitude LE (Num 8)], mag := 3\<rparr>) ex_plot))
     = [''NGC1'']"
    by (simp add: objects_of_def ex_defs run_defs del: not_None_eq)
  show ?thesis using same plotted by simp
qed

text \<open>
  C5, as the code has it. With \<^verbatim>\<open>where\<close> absent (or empty), an object that has a style and
  is within bounds is kept exactly when its resolved magnitude is unknown or at most
  \<^verbatim>\<open>mag\<close>; the resolved magnitude is V-Mag when that is neither absent nor zero, else
  B-Mag when that is neither absent nor zero, else unknown.
\<close>

theorem default_selection_by_magnitude:
  assumes "where_arg A = None \<or> where_arg A = Some []"
    and "sty \<noteq> None" and "in_bounds E (r / 15) dc"
  shows "(\<not> skip_object sty (l_where (dsos_prepare E A)) E (make_dso d r dc t) r dc) =
     (case (if truthy (V_Mag d) then V_Mag d else if truthy (B_Mag d) then B_Mag d else None) of
        None \<Rightarrow> True
      | Some m \<Rightarrow> m \<le> mag A)"
  using assms(2,3)
  by (simp add: skip_object_def default_where_eval[OF assms(1)] make_dso_def resolve_magnitude_eq)

text \<open>
  C5 on the scenario of the specification: V-Mag absent, B-Mag 9.1 and \<^verbatim>\<open>mag=8\<close>; the
  object is skipped.
\<close>

theorem default_selection_by_magnitude_witness:
  "(where_arg ex_args = None \<or> where_arg ex_args = Some [])
   \<and> Some ex_style \<noteq> None
   \<and> in_bounds ex_env (30 / 15) 10
   \<and> skip_object (Some ex_style) (l_where (dsos_prepare ex_env ex_args)) ex_env
        (make_dso ex_row 30 10 OPEN_CLUSTER) 30 10"
  using default_selection_by_magnitude [of ex_args "Some ex_style" ex_env 30 10 ex_row OPEN_CLUSTER]
  by (simp add: ex_defs)

text \<open>
  C5 as stated fails when V-Mag is present and zero: with V-Mag 0, B-Mag 9.1 and
  \<^verbatim>\<open>mag=8\<close> the V-Mag value 0 is within the limit, so the object is included by the
  wording of the claim, while \<^verbatim>\<open>dsos()\<close> resolves the magnitude from B-Mag and skips it.
\<close>

theorem default_selection_zero_v_mag_counterexample:
  "default_included_spec 8 (ex_row\<lparr>V_Mag := Some 0\<rparr>)
   \<and> dsos ex_env [ex_row\<lparr>V_Mag := Some 0\<rparr>] ex_args ex_plot = Inr ex_plot"
  by (simp add: default_included_spec_def resolved_magnitude_spec_def ex_defs run_defs
        del: not_None_eq)



text \<open>
  C8. A candidate whose type has no configured style is skipped silently: the iteration
  raises nothing and leaves the plot as it was, so there is no draw call, no object
  recorded and no legend handle for it.
\<close>

theorem missing_style_skips:
  assumes "ONGC_TYPE_MAP E (Type d) = Some t" and "get_dso_style p t = None"
    and "ra_degrees d = Some r" and "dec_degrees d = Some dc"
  shows "dsos_row E L d p = Inr p"
  using assms by (simp add: dsos_row_def skip_object_def)

text \<open>C8 on a galaxy, for which the example plot has no style.\<close>

theorem missing_style_skips_witness:
  "ONGC_TYPE_MAP ex_env (Type (ex_row\<lparr>Type := ''G''\<rparr>)) = Some GALAXY
   \<and> get_dso_style ex_plot GALAXY = None
   \<and> ra_degrees (ex_row\<lparr>Type := ''G''\<rparr>) = Some 30
   \<and> dec_degrees (ex_row\<lparr>Type := ''G''\<rparr>) = Some 10
   \<and> dsos_row ex_env (dsos_prepare ex_env (ex_args\<lparr>types := [GALAXY]\<rparr>)) (ex_row\<lparr>Type := ''G''\<rparr>) ex_plot
       = Inr ex_plot"
  using missing_style_skips
    [of ex_env "ex_row\<lparr>Type := ''G''\<rparr>" GALAXY ex_plot 30 10
        "dsos_prepare ex_env (ex_args\<lparr>types := [GALAXY]\<rparr>)"]
  by (simp add: ex_defs get_dso_style_def)


section \<open>Rendering\<close>

text \<open>
  C9. Every coordinate list that a run of \<^verbatim>\<open>dsos()\<close> hands to the polygon primitive is
  closed, its first vertex being its final element again: if the polygon calls already on
  the plot are closed, so are all of them after the run.
\<close>

theorem polygon_rings_closed:
  assumes "dsos E nearby_dsos A p = Inr p'" and "list_all polygon_call_closed (draws p)"
  shows "list_all polygon_call_closed (draws p')"
  using assms by (auto simp add: dsos_def split: sum.splits dest: dsos_loop_closed)

text \<open>C9 on a triangle given by its three vertices: the call has the first vertex at the end.\<close>

theorem polygon_rings_closed_witness:
  "list_all polygon_call_closed (draws ex_plot)
   \<and> draws_of (dsos ex_env [ex_row\<lparr>geometry := Polygon [(0, 0), (1, 0), (1, 1)]\<rparr>]
        (ex_args\<lparr>mag := 10, labels := LabelsNone\<rparr>) ex_plot)
     = [DrawPolygon [(0, 0), (1, 0), (1, 1), (0, 0), (0, 0)]
          (ToPolygonStyle \<lparr>symbol = SQUARE, alpha = 1\<rparr>) False]
   \<and> list_all polygon_call_closed
       (draws_of (dsos ex_env [ex_row\<lparr>geometry := Polygon [(0, 0), (1, 0), (1, 1)]\<rparr>]
          (ex_args\<lparr>mag := 10, labels := LabelsNone\<rparr>) ex_plot))"
proof -
  have drawn: "draws_of (dsos ex_env [ex_row\<lparr>geometry := Polygon [(0, 0), (1, 0), (1, 1)]\<rparr>]
        (ex_args\<lparr>mag := 10, labels := LabelsNone\<rparr>) ex_plot)
     = [DrawPolygon [(0, 0), (1, 0), (1, 1), (0, 0), (0, 0)]
          (ToPolygonStyle \<lparr>symbol = SQUARE, alpha = 1\<rparr>) False]"
    by (simp add: draws_of_def ex_defs run_defs del: not_None_eq)
  have "\<exists>p'. dsos ex_env [ex_row\<lparr>geometry := Polygon [(0, 0), (1, 0), (1, 1)]\<rparr>]
        (ex_args\<lparr>mag := 10, labels := LabelsNone\<rparr>) ex_plot = Inr p'"
    by (simp add: ex_defs run_defs del: not_None_eq)
  then obtain p' where run: "dsos ex_env [ex_row\<lparr>geometry := Polygon [(0, 0), (1, 0), (1, 1)]\<rparr>]
        (ex_args\<lparr>mag := 10, labels := LabelsNone\<rparr>) ex_plot = Inr p'"
    by blast
  have start: "list_all polygon_call_closed (draws ex_plot)"
    by (simp add: ex_plot_def)
  have "list_all polygon_call_closed (draws p')"
    using polygon_rings_closed [OF run start] .
  then show ?thesis
    using drawn start by (simp add: run draws_of_def)
qed

text \<open>
  C6, as the code has it. On the major-axis path (size known, no outline geometry, major
  axis neither absent nor zero) the half-major-axis is \<open>(MajAx / 60) / 2\<close>; the
  half-minor-axis is the same formula on the minor axis when that is neither absent nor
  zero, else the half-major-axis; the shape is a rectangle for the square glyph and an
  ellipse otherwise, of twice the half-axes, rotated by the position angle, or by 0 when
  that is absent.
\<close>

theorem major_axis_shape:
  assumes "geometry d = Point \<or> geometry d = OtherGeometry"
    and "MajAx d = Some maj" and "maj \<noteq> 0"
  shows "maj_ax_degrees maj = (maj / 60) / 2
     \<and> min_ax_degrees maj (MinAx d) =
         (case MinAx d of
            None \<Rightarrow> maj_ax_degrees maj
          | Some m \<Rightarrow> (if m \<noteq> 0 then (m / 60) / 2 else maj_ax_degrees maj))
     \<and> plot_shape d r dc s p =
         Inr (p\<lparr>draws := draws p @
           [(if symbol (marker s) = SQUARE then DrawRectangle else DrawEllipse)
              (r / 15, dc) (min_ax_degrees maj (MinAx d) * 2) (maj_ax_degrees maj * 2)
              (ToPolygonStyle (marker s))
              (case PosAng d of None \<Rightarrow> 0 | Some a \<Rightarrow> a)]\<rparr>)"
  using assms
  by (auto simp add: plot_shape_def plot_extent_def maj_ax_degrees_def min_ax_degrees_def
        py_or_num_def split: option.splits)

text \<open>
  C6 on the scenario of the specification: MajAx 10, no MinAx, no PosAng and the square
  glyph give a rectangle with both half-axes \<open>(10 / 60) / 2 = 1 / 12\<close> and angle 0.
\<close>

theorem major_axis_shape_witness:
  "(geometry ex_row = Point \<or> geometry ex_row = OtherGeometry)
   \<and> MajAx ex_row = Some 10 \<and> (10 :: real) \<noteq> 0
   \<and> maj_ax_degrees 10 = 1 / 12
   \<and> min_ax_degrees 10 (MinAx ex_row) = 1 / 12
   \<and> draws_of (plot_shape ex_row 30 10 ex_style ex_plot)
       = [DrawRectangle (2, 10) (1 / 6) (1 / 6) (ToPolygonStyle \<lparr>symbol = SQUARE, alpha = 1\<rparr>) 0]"
  using major_axis_shape [of ex_row 10 30 10 ex_style ex_plot]
  by (simp add: ex_defs draws_of_def maj_ax_degrees_def min_ax_degrees_def)

text \<open>
  C6 as stated fails when the minor axis is present and zero: the formula on it gives a
  half-minor-axis of 0, while the code falls back to the half-major-axis.
\<close>

theorem minor_axis_zero_counterexample:
  "min_ax_degrees_spec 10 (Some 0) = 0
   \<and> min_ax_degrees 10 (Some 0) = 1 / 12
   \<and> draws_of (plot_shape (ex_row\<lparr>MinAx := Some 0\<rparr>) 30 10 ex_style ex_plot)
       = [DrawRectangle (2, 10) (1 / 6) (1 / 6) (ToPolygonStyle \<lparr>symbol = SQUARE, alpha = 1\<rparr>) 0]"
  by (simp add: min_ax_degrees_spec_def ex_defs draws_of_def plot_shape_def plot_extent_def
        maj_ax_degrees_def min_ax_degrees_def py_or_num_def)

text \<open>
  C2 at an object with a known size, a point geometry and no major axis, plotted at true
  size: no marker call is issued. Nothing is drawn for the object itself, its label goes
  to the text primitive, and the object is recorded as plotted. With \<^verbatim>\<open>true_size\<close> off the
  same object is drawn by the marker primitive, which receives the label.
\<close>

theorem size_without_axis_draws_no_marker:
  "draws_of (dsos ex_env [ex_row\<lparr>MajAx := None\<rparr>] (ex_args\<lparr>mag := 10\<rparr>) ex_plot)
     = [DrawText 2 10 ''NGC1'' ()]
   \<and> map name (objects_of (dsos ex_env [ex_row\<lparr>MajAx := None\<rparr>] (ex_args\<lparr>mag := 10\<rparr>) ex_plot))
     = [''NGC1'']
   \<and> draws_of (dsos ex_env [ex_row\<lparr>MajAx := None\<rparr>] (ex_args\<lparr>mag := 10, true_size := False\<rparr>) ex_plot)
     = [DrawMarker 2 10 (Some ''NGC1'') ex_style]"
  by (simp add: draws_of_def objects_of_def ex_defs run_defs del: not_None_eq)


section \<open>The style registry\<close>

text \<open>
  C3, as the code has it. With an \<^verbatim>\<open>alpha_fn\<close> supplied, plotting an object writes
  \<^verbatim>\<open>alpha_fn(object)\<close> into the marker alpha of the style that the registry holds for the
  object's DSO type: no copy is made, and after the object is processed the registry
  returns, for that type, the style it returned before with its marker alpha replaced.
\<close>

theorem alpha_override_writes_registry:
  assumes "l_alpha_fn L = Some f"
    and "ONGC_TYPE_MAP E (Type d) = Some t"
    and "ra_degrees d = Some r" and "dec_degrees d = Some dc"
    and "get_dso_style p t = Some s0"
    and "\<not> skip_object (Some s0) (l_where L) E (make_dso d r dc t) r dc"
    and "dsos_row E L d p = Inr p'"
  shows "get_dso_style p' t
       = Some (s0\<lparr>marker := (marker s0)\<lparr>alpha := f (make_dso d r dc t)\<rparr>\<rparr>)"
  using assms
  by (auto simp add: dsos_row_def get_dso_style_def Let_def add_legend_handle_marker_def
        split: sum.splits option.splits dest!: plot_object_style)

text \<open>
  C3 on an open cluster plotted with \<^verbatim>\<open>alpha_fn = lambda d: 0.5\<close>, the style of its type
  being configured with alpha 1.
\<close>

theorem alpha_override_writes_registry_witness:
  "l_alpha_fn (dsos_prepare ex_env (ex_args\<lparr>mag := 10, alpha_fn := Some (\<lambda>d. 1 / 2)\<rparr>))
     = Some (\<lambda>d. 1 / 2)
   \<and> ONGC_TYPE_MAP ex_env (Type ex_row) = Some OPEN_CLUSTER
   \<and> ra_degrees ex_row = Some 30 \<and> dec_degrees ex_row = Some 10
   \<and> get_dso_style ex_plot OPEN_CLUSTER = Some ex_style
   \<and> \<not> skip_object (Some ex_style)
         (l_where (dsos_prepare ex_env (ex_args\<lparr>mag := 10, alpha_fn := Some (\<lambda>d. 1 / 2)\<rparr>)))
         ex_env (make_dso ex_row 30 10 OPEN_CLUSTER) 30 10
   \<and> (\<exists>p'. dsos_row ex_env (dsos_prepare ex_env (ex_args\<lparr>mag := 10, alpha_fn := Some (\<lambda>d. 1 / 2)\<rparr>))
              ex_row ex_plot = Inr p'
          \<and> get_dso_style p' OPEN_CLUSTER
              = Some \<lparr>marker = \<lparr>symbol = SQUARE, alpha = 1 / 2\<rparr>, label = ()\<rparr>)"
proof -
  let ?L = "dsos_prepare ex_env (ex_args\<lparr>mag := 10, alpha_fn := Some (\<lambda>d. 1 / 2)\<rparr>)"
  have a: "l_alpha_fn ?L = Some (\<lambda>d. 1 / 2)"
    by (simp add: dsos_prepare_def ex_args_def)
  have t: "ONGC_TYPE_MAP ex_env (Type ex_row) = Some OPEN_CLUSTER"
    by (simp add: ex_env_def ex_row_def)
  have r: "ra_degrees ex_row = Some 30" and dc: "dec_degrees ex_row = Some 10"
    by (simp_all add: ex_row_def)
  have s: "get_dso_style ex_plot OPEN_CLUSTER = Some ex_style"
    by (simp add: get_dso_style_def ex_plot_def)
  have k: "\<not> skip_object (Some ex_style) (l_where ?L) ex_env (make_dso ex_row 30 10 OPEN_CLUSTER) 30 10"
    by (simp add: ex_defs run_defs del: not_None_eq)
  have "\<exists>p'. dsos_row ex_env ?L ex_row ex_plot = Inr p'"
    by (simp add: ex_defs run_defs del: not_None_eq)
  then obtain p' where run: "dsos_row ex_env ?L ex_row ex_plot = Inr p'"
    by blast
  have "get_dso_style p' OPEN_CLUSTER
          = Some (ex_style\<lparr>marker := (marker ex_style)\<lparr>alpha := 1 / 2\<rparr>\<rparr>)"
    using alpha_override_writes_registry [OF a t r dc s k run] .
  then have "get_dso_style p' OPEN_CLUSTER
          = Some \<lparr>marker = \<lparr>symbol = SQUARE, alpha = 1 / 2\<rparr>, label = ()\<rparr>"
    by (simp add: ex_style_def)
  then show ?thesis
    using a t r dc s k run by blast
qed

text \<open>
  C3 as stated fails: after one open cluster is plotted with \<^verbatim>\<open>alpha_fn = lambda d: 0.5\<close>,
  the style registered for open clusters has alpha 0.5 instead of the configured 1, and
  a later \<^verbatim>\<open>dsos()\<close> without \<^verbatim>\<open>alpha_fn\<close> draws the marker of an open cluster with it.
\<close>

theorem alpha_override_leaks_counterexample:
  "registry_alpha ex_plot OPEN_CLUSTER = Some 1
   \<and> (case dsos ex_env [ex_row] (ex_args\<lparr>mag := 10, alpha_fn := Some (\<lambda>d. 1 / 2)\<rparr>) ex_plot of
        Inl e \<Rightarrow> None
      | Inr p1 \<Rightarrow> registry_alpha p1 OPEN_CLUSTER) = Some (1 / 2)
   \<and> (case dsos ex_env [ex_row] (ex_args\<lparr>mag := 10, alpha_fn := Some (\<lambda>d. 1 / 2)\<rparr>) ex_plot of
        Inl e \<Rightarrow> []
      | Inr p1 \<Rightarrow>
          draws_of (dsos ex_env [ex_row] (ex_args\<lparr>mag := 10, true_size := False\<rparr>)
                      (p1\<lparr>draws := []\<rparr>)))
     = [DrawMarker 2 10 (Some ''NGC1'') \<lparr>marker = \<lparr>symbol = SQUARE, alpha = 1 / 2\<rparr>, label = ()\<rparr>]"
  by (simp add: registry_alpha_def draws_of_def ex_defs run_defs del: not_None_eq)

section \<open>The convenience wrappers\<close>

text \<open>
  C4, as the code has it. For every argument list whose keywords do not include
  \<^verbatim>\<open>types\<close>, a wrapper is the call of \<^verbatim>\<open>dsos()\<close> with \<^verbatim>\<open>types\<close> preset to the wrapper's
  DSO types and every keyword argument forwarded unchanged; the positional arguments are
  not forwarded.
\<close>

theorem wrappers_forward_keywords:
  assumes "kw_types kwargs = None"
  shows "open_clusters E nearby_dsos args kwargs p
       = dsos_call E nearby_dsos [] (kwargs\<lparr>kw_types := Some [OPEN_CLUSTER]\<rparr>) p
     \<and> globular_clusters E nearby_dsos args kwargs p
       = dsos_call E nearby_dsos [] (kwargs\<lparr>kw_types := Some [GLOBULAR_CLUSTER]\<rparr>) p
     \<and> galaxies E nearby_dsos args kwargs p
       = dsos_call E nearby_dsos []
           (kwargs\<lparr>kw_types := Some [GALAXY, GALAXY_PAIR, GALAXY_TRIPLET]\<rparr>) p
     \<and> nebula E nearby_dsos args kwargs p
       = dsos_call E nearby_dsos []
           (kwargs\<lparr>kw_types := Some [NEBULA, PLANETARY_NEBULA, EMISSION_NEBULA,
                                       STAR_CLUSTER_NEBULA, REFLECTION_NEBULA]\<rparr>) p"
  using assms
  by (simp add: open_clusters_def globular_clusters_def galaxies_def nebula_def
        dsos_with_types_def)

text \<open>
  C4 on \<^verbatim>\<open>open_clusters(3.0, mag=10)\<close>: it is \<^verbatim>\<open>dsos(types=[OPEN_CLUSTER], mag=10)\<close>, and
  the open cluster of magnitude 9.1 is plotted.
\<close>

theorem wrappers_forward_keywords_witness:
  "kw_types (ex_kwargs\<lparr>kw_mag := Some 10\<rparr>) = None
   \<and> open_clusters ex_env [ex_row] [ArgFloat 3] (ex_kwargs\<lparr>kw_mag := Some 10\<rparr>) ex_plot
       = dsos_call ex_env [ex_row] [] (ex_kwargs\<lparr>kw_mag := Some 10, kw_types := Some [OPEN_CLUSTER]\<rparr>) ex_plot
   \<and> map name (objects_of
        (open_clusters ex_env [ex_row] [ArgFloat 3] (ex_kwargs\<lparr>kw_mag := Some 10\<rparr>) ex_plot))
       = [''NGC1'']"
proof -
  have k: "kw_types (ex_kwargs\<lparr>kw_mag := Some 10\<rparr>) = None"
    by (simp add: ex_kwargs_def)
  have eq: "open_clusters ex_env [ex_row] [ArgFloat 3] (ex_kwargs\<lparr>kw_mag := Some 10\<rparr>) ex_plot
       = dsos_call ex_env [ex_row] [] (ex_kwargs\<lparr>kw_mag := Some 10, kw_types := Some [OPEN_CLUSTER]\<rparr>) ex_plot"
    using wrappers_forward_keywords [OF k, of ex_env "[ex_row]" "[ArgFloat 3]" ex_plot]
    by simp
  have "map name (objects_of
          (dsos_call ex_env [ex_row] [] (ex_kwargs\<lparr>kw_mag := Some 10, kw_types := Some [OPEN_CLUSTER]\<rparr>) ex_plot))
       = [''NGC1'']"
    by (simp add: objects_of_def dsos_call_def apply_defaults_def ex_defs run_defs
          del: not_None_eq)
  then show ?thesis
    using k eq by simp
qed

text \<open>
  C4 as stated fails on a positional argument: \<^verbatim>\<open>open_clusters(3.0)\<close> should be
  \<^verbatim>\<open>dsos(3.0, types=[OPEN_CLUSTER])\<close>, which leaves out an open cluster of magnitude 5;
  the wrapper drops the 3.0, runs with the default \<^verbatim>\<open>mag=8\<close> and plots it.
\<close>

theorem wrapper_drops_positional_counterexample:
  "objects_of (forward_all_spec ex_env [ex_row\<lparr>V_Mag := Some 5\<rparr>] [OPEN_CLUSTER] [ArgFloat 3]
                 ex_kwargs ex_plot) = []
   \<and> map name (objects_of (open_clusters ex_env [ex_row\<lparr>V_Mag := Some 5\<rparr>] [ArgFloat 3]
                 ex_kwargs ex_plot)) = [''NGC1'']"
  by (simp add: objects_of_def forward_all_spec_def open_clusters_def dsos_with_types_def
        dsos_call_def bind_one_def apply_defaults_def ex_defs run_defs del: not_None_eq)


end
